theory Spec2Isabelle
  imports Main "HOL-Library.Word"
begin

unbundle bit_operations_syntax

section \<open>The Binary type of lib/tbinary.js\<close>

text \<open>
  The module defines one class, \<open>Binary\<close>: a subtype tag, a backing store
  (\<open>this.buffer\<close>) and a cursor (\<open>this.position\<close>). The store is a Node.js
  \<open>Buffer\<close>, or whatever sequence the caller handed to the constructor (a
  \<open>Uint8Array\<close> or a plain \<open>Array\<close>); one path of \<open>write\<close> leaves it \<open>null\<close>.

  Conventions of the embedding:
  \<^item> JavaScript numbers are modelled by \<open>int\<close> (integral numbers only); lengths,
    the cursor and write offsets by \<open>nat\<close>;
  \<^item> a string is the list of its UTF-16 code units, a byte is an \<open>8 word\<close>;
  \<^item> \<open>undefined\<close> (a hole of an \<open>Array\<close>, an absent argument) is \<open>None\<close>;
  \<^item> a method that mutates \<open>this\<close> returns the exception it threw, if any, and the
    instance as the call left it; a method that only reads returns the exception
    or the value;
  \<^item> \<open>Buffer\<close>, \<open>Uint8Array\<close>, \<open>Array\<close> and the lodash tests are the platform
    the module runs on, not part of it: they are modelled as Node.js documents
    them, the parts the module calls only.
\<close>

subsection \<open>JavaScript values\<close>

type_synonym byte = "8 word"
type_synonym code_unit = "16 word"
type_synonym jsstring = "code_unit list"

datatype seq =
    Buffer "byte list"
  | Uint8Array "byte list"
  | Array "int option list"

datatype jsval =
    Num int
  | Str jsstring
  | Seq seq

datatype js_error = Error string | TypeError

text \<open>The lodash and Buffer type tests the module uses.\<close>

fun isNumber :: "jsval \<Rightarrow> bool" where
  "isNumber (Num n) = True"
| "isNumber v = False"

fun isString :: "jsval \<Rightarrow> bool" where
  "isString (Str s) = True"
| "isString v = False"

fun isArray :: "jsval \<Rightarrow> bool" where
  "isArray (Seq (Array xs)) = True"
| "isArray v = False"

fun isBuffer :: "seq \<Rightarrow> bool" where
  "isBuffer (Buffer bs) = True"
| "isBuffer q = False"

fun isBuffer_val :: "jsval \<Rightarrow> bool" where
  "isBuffer_val (Seq q) = isBuffer q"
| "isBuffer_val v = False"

subsection \<open>Sequences: length, element reads and writes, slice\<close>

fun seq_length :: "seq \<Rightarrow> nat" where
  "seq_length (Buffer bs) = length bs"
| "seq_length (Uint8Array bs) = length bs"
| "seq_length (Array xs) = length xs"

text \<open>\<open>v.length\<close>: a number has none.\<close>

fun js_length :: "jsval \<Rightarrow> nat option" where
  "js_length (Num n) = None"
| "js_length (Str s) = Some (length s)"
| "js_length (Seq q) = Some (seq_length q)"

text \<open>
  \<open>ToUint8\<close>: what a typed array keeps of a value stored into it. An integer is
  reduced modulo 256, \<open>undefined\<close> becomes 0.
\<close>

fun ToUint8 :: "int option \<Rightarrow> byte" where
  "ToUint8 None = 0"
| "ToUint8 (Some n) = word_of_int n"

text \<open>\<open>q[i]\<close>: \<open>undefined\<close> outside the sequence.\<close>

fun seq_get :: "seq \<Rightarrow> nat \<Rightarrow> int option" where
  "seq_get (Buffer bs) i = (if i < length bs then Some (uint (bs ! i)) else None)"
| "seq_get (Uint8Array bs) i = (if i < length bs then Some (uint (bs ! i)) else None)"
| "seq_get (Array xs) i = (if i < length xs then xs ! i else None)"

text \<open>
  \<open>q[i] = v\<close>: a typed array converts the value and ignores an index outside it;
  an \<open>Array\<close> keeps the value as it is and grows, leaving holes, when the index is
  at or beyond its length.
\<close>

fun seq_set :: "seq \<Rightarrow> nat \<Rightarrow> int option \<Rightarrow> seq" where
  "seq_set (Buffer bs) i v = Buffer (if i < length bs then bs[i := ToUint8 v] else bs)"
| "seq_set (Uint8Array bs) i v = Uint8Array (if i < length bs then bs[i := ToUint8 v] else bs)"
| "seq_set (Array xs) i v =
     Array (if i < length xs then xs[i := v] else xs @ replicate (i - length xs) None @ [v])"

text \<open>The elements of a sequence as JavaScript reads them.\<close>

fun seq_elems :: "seq \<Rightarrow> int option list" where
  "seq_elems (Buffer bs) = map (\<lambda>b. Some (uint b)) bs"
| "seq_elems (Uint8Array bs) = map (\<lambda>b. Some (uint b)) bs"
| "seq_elems (Array xs) = xs"

text \<open>
  \<open>slice(start, end)\<close> of \<open>Buffer\<close>, \<open>Uint8Array\<close> and \<open>Array\<close>: a negative
  index counts from the end, and both indices are clamped to the sequence.
\<close>

definition adjustOffset :: "int \<Rightarrow> nat \<Rightarrow> nat" where
  "adjustOffset offset len =
     (if offset < 0 then (if offset + int len > 0 then nat (offset + int len) else 0)
      else if offset < int len then nat offset
      else len)"

definition list_slice :: "'a list \<Rightarrow> int \<Rightarrow> int \<Rightarrow> 'a list" where
  "list_slice xs start end' =
     (let s = adjustOffset start (length xs);
          e = adjustOffset end' (length xs);
          newLength = (if e > s then e - s else 0)
      in take newLength (drop s xs))"

fun seq_slice :: "seq \<Rightarrow> int \<Rightarrow> int \<Rightarrow> seq" where
  "seq_slice (Buffer bs) s e = Buffer (list_slice bs s e)"
| "seq_slice (Uint8Array bs) s e = Uint8Array (list_slice bs s e)"
| "seq_slice (Array xs) s e = Array (list_slice xs s e)"

subsection \<open>The Buffer operations the module calls\<close>

text \<open>\<open>new Buffer(size)\<close>: \<open>size\<close> bytes, zero-filled.\<close>

definition new_Buffer :: "nat \<Rightarrow> byte list" where
  "new_Buffer size' = replicate size' 0"

text \<open>\<open>new Array(size)\<close>: \<open>size\<close> holes.\<close>

definition new_Array :: "nat \<Rightarrow> int option list" where
  "new_Array size' = replicate size' None"

text \<open>
  \<open>source.copy(target, targetStart, sourceStart, sourceEnd)\<close>: copies what fits
  into the target and nothing when \<open>targetStart\<close> is at or beyond its end. The
  result is the target afterwards.
\<close>

definition Buffer_copy :: "byte list \<Rightarrow> byte list \<Rightarrow> nat \<Rightarrow> nat \<Rightarrow> nat \<Rightarrow> byte list" where
  "Buffer_copy source target targetStart sourceStart sourceEnd =
     (if targetStart \<ge> length target \<or> sourceStart \<ge> sourceEnd then target
      else
        let nb = min (min (sourceEnd - sourceStart) (length target - targetStart))
                     (length source - sourceStart)
        in take targetStart target @ take nb (drop sourceStart source)
             @ drop (targetStart + nb) target)"

text \<open>
  \<open>new Buffer(string)\<close> encodes the string with the default encoding, UTF-8: one
  to three bytes for a code unit outside the surrogate range, four bytes for a
  surrogate pair, and the three bytes of U+FFFD for a lone surrogate.
\<close>

definition utf8_2 :: "nat \<Rightarrow> byte list" where
  "utf8_2 cp = [of_nat (192 + cp div 64), of_nat (128 + cp mod 64)]"

definition utf8_3 :: "nat \<Rightarrow> byte list" where
  "utf8_3 cp = [of_nat (224 + cp div 4096), of_nat (128 + (cp div 64) mod 64),
                of_nat (128 + cp mod 64)]"

definition utf8_4 :: "nat \<Rightarrow> byte list" where
  "utf8_4 cp = [of_nat (240 + cp div 262144), of_nat (128 + (cp div 4096) mod 64),
                of_nat (128 + (cp div 64) mod 64), of_nat (128 + cp mod 64)]"

definition is_lead_surrogate :: "code_unit \<Rightarrow> bool" where
  "is_lead_surrogate c = (0xD800 \<le> c \<and> c \<le> 0xDBFF)"

definition is_trail_surrogate :: "code_unit \<Rightarrow> bool" where
  "is_trail_surrogate c = (0xDC00 \<le> c \<and> c \<le> 0xDFFF)"

fun utf8_encode :: "jsstring \<Rightarrow> byte list" where
  "utf8_encode [] = []"
| "utf8_encode [c] =
     (if c < 0x80 then [ucast c]
      else if c < 0x800 then utf8_2 (unat c)
      else if is_lead_surrogate c \<or> is_trail_surrogate c then utf8_3 0xFFFD
      else utf8_3 (unat c))"
| "utf8_encode (c # d # cs) =
     (if c < 0x80 then ucast c # utf8_encode (d # cs)
      else if c < 0x800 then utf8_2 (unat c) @ utf8_encode (d # cs)
      else if is_lead_surrogate c \<and> is_trail_surrogate d
        then utf8_4 (0x10000 + (unat c - 0xD800) * 1024 + (unat d - 0xDC00)) @ utf8_encode cs
      else if is_lead_surrogate c \<or> is_trail_surrogate c
        then utf8_3 0xFFFD @ utf8_encode (d # cs)
      else utf8_3 (unat c) @ utf8_encode (d # cs))"

text \<open>
  The \<open>'binary'\<close> (latin1) encoding: one byte per code unit, its low eight bits;
  decoding gives the code unit of that value.
\<close>

definition latin1_encode :: "jsstring \<Rightarrow> byte list" where
  "latin1_encode s = map ucast s"

definition latin1_decode :: "byte list \<Rightarrow> jsstring" where
  "latin1_decode bs = map ucast bs"

text \<open>\<open>buf.toString('binary', start, end)\<close>, with \<open>end\<close> clamped to the buffer.\<close>

definition Buffer_toString_binary :: "byte list \<Rightarrow> nat \<Rightarrow> nat \<Rightarrow> jsstring" where
  "Buffer_toString_binary bs start end' =
     latin1_decode (take (min end' (length bs) - start) (drop start bs))"

text \<open>
  \<open>buf.write(string, 'binary', offset)\<close>, the call the module makes. The method
  is \<open>write(string, offset, length, encoding)\<close>; with a third argument present
  the second one is taken as the offset and must be a number, and \<open>'binary'\<close> is
  a string: the call throws a \<open>TypeError\<close> for every target, string and offset,
  and writes nothing.
\<close>

definition Buffer_write_binary :: "byte list \<Rightarrow> jsstring \<Rightarrow> nat \<Rightarrow> js_error + byte list" where
  "Buffer_write_binary target s offset = Inl TypeError"

text \<open>
  \<open>buf.toString('base64')\<close>: the standard alphabet, padded with \<open>=\<close>.
\<close>

definition b64_chars :: string where
  "b64_chars = ''ABCDEFGHIJKLMNOPQRSTUVWXYZabcdefghijklmnopqrstuvwxyz0123456789+/''"

definition b64 :: "nat \<Rightarrow> char" where
  "b64 n = b64_chars ! n"

fun base64_encode :: "byte list \<Rightarrow> string" where
  "base64_encode [] = []"
| "base64_encode [a] =
     [b64 (unat a div 4), b64 (unat a mod 4 * 16), CHR ''='', CHR ''='']"
| "base64_encode [a, b] =
     [b64 (unat a div 4), b64 (unat a mod 4 * 16 + unat b div 16),
      b64 (unat b mod 16 * 4), CHR ''='']"
| "base64_encode (a # b # c # bs) =
     [b64 (unat a div 4), b64 (unat a mod 4 * 16 + unat b div 16),
      b64 (unat b mod 16 * 4 + unat c div 64), b64 (unat c mod 64)] @ base64_encode bs"

text \<open>
  \<open>toString\<close> of an \<open>Array\<close> or a \<open>Uint8Array\<close> takes no encoding: it joins
  the elements, in decimal, with commas; \<open>undefined\<close> prints as the empty string.
\<close>

fun digits :: "nat \<Rightarrow> string" where
  "digits n = (if n < 10 then [char_of (48 + n)] else digits (n div 10) @ [char_of (48 + n mod 10)])"

definition Number_toString :: "int \<Rightarrow> string" where
  "Number_toString i = (if i < 0 then CHR ''-'' # digits (nat (- i)) else digits (nat i))"

fun element_toString :: "int option \<Rightarrow> string" where
  "element_toString None = []"
| "element_toString (Some n) = Number_toString n"

fun join_comma :: "string list \<Rightarrow> string" where
  "join_comma [] = []"
| "join_comma [x] = x"
| "join_comma (x # y # xs) = x @ '','' @ join_comma (y # xs)"

definition js_string :: "string \<Rightarrow> jsstring" where
  "js_string cs = map (\<lambda>c. of_nat (of_char c)) cs"

fun seq_toString :: "seq \<Rightarrow> jsstring" where
  "seq_toString (Buffer bs) = js_string (base64_encode bs)"
| "seq_toString (Uint8Array bs) = js_string (join_comma (map element_toString (seq_elems (Uint8Array bs))))"
| "seq_toString (Array xs) = js_string (join_comma (map element_toString xs))"

subsection \<open>Coercion to a number in a comparison\<close>

text \<open>
  \<open>byte_value < 0\<close> and \<open>byte_value > 255\<close> convert a non-numeric operand to a
  number first; \<open>None\<close> stands for \<open>NaN\<close>, for which every comparison is false.
  \<open>put\<close> compares numbers and values of length 1 only (it has thrown for every
  other length before), so the conversion is given for these: a one-character
  string is a digit, white space (which converts to 0) or not a number; a
  one-element array converts as its element does; a one-byte \<open>Buffer\<close> converts
  as the string it decodes to.
\<close>

definition StrWhiteSpaceChar :: "code_unit \<Rightarrow> bool" where
  "StrWhiteSpaceChar c =
     (c \<in> {0x09, 0x0A, 0x0B, 0x0C, 0x0D, 0x20, 0xA0, 0x1680, 0x2028, 0x2029, 0x202F,
            0x205F, 0x3000, 0xFEFF} \<or> (0x2000 \<le> c \<and> c \<le> 0x200A))"

definition char_ToNumber :: "code_unit \<Rightarrow> int option" where
  "char_ToNumber c =
     (if 0x30 \<le> c \<and> c \<le> 0x39 then Some (uint c - 48)
      else if StrWhiteSpaceChar c then Some 0
      else None)"

fun ToNumber :: "jsval \<Rightarrow> int option" where
  "ToNumber (Num n) = Some n"
| "ToNumber (Str [c]) = char_ToNumber c"
| "ToNumber (Seq (Array [None])) = Some 0"
| "ToNumber (Seq (Array [Some n])) = Some n"
| "ToNumber (Seq (Uint8Array [b])) = Some (uint b)"
| "ToNumber (Seq (Buffer [b])) = char_ToNumber (if b < 0x80 then ucast b else 0xFFFD)"
| "ToNumber v = None"

definition js_less :: "jsval \<Rightarrow> int \<Rightarrow> bool" where
  "js_less v k = (case ToNumber v of None \<Rightarrow> False | Some n \<Rightarrow> n < k)"

definition js_greater :: "jsval \<Rightarrow> int \<Rightarrow> bool" where
  "js_greater v k = (case ToNumber v of None \<Rightarrow> False | Some n \<Rightarrow> n > k)"

subsection \<open>The class\<close>

record Binary =
  sub_type :: int
  position :: nat
  buffer :: "seq option"

definition BSON_BINARY_SUBTYPE_DEFAULT :: int where
  "BSON_BINARY_SUBTYPE_DEFAULT = 0"

definition BUFFER_SIZE :: nat where
  "BUFFER_SIZE = 256"

text \<open>
  \<open>Binary(buffer, subType)\<close>. A string is handed to \<open>new Buffer\<close>, any other
  sequence is kept as the store; the cursor is the \<open>length\<close> of the argument.
\<close>

definition new_Binary :: "jsval option \<Rightarrow> int option \<Rightarrow> Binary" where
  "new_Binary buffer' subType =
     (let st = (case buffer' of
                  Some (Num n) \<Rightarrow> n
                | _ \<Rightarrow> (case subType of None \<Rightarrow> BSON_BINARY_SUBTYPE_DEFAULT | Some t \<Rightarrow> t))
      in case buffer' of
           Some (Str s) \<Rightarrow>
             \<lparr>sub_type = st, position = length s, buffer = Some (Buffer (utf8_encode s))\<rparr>
         | Some (Seq q) \<Rightarrow>
             \<lparr>sub_type = st, position = seq_length q, buffer = Some q\<rparr>
         | _ \<Rightarrow>
             \<lparr>sub_type = st, position = 0, buffer = Some (Buffer (new_Buffer BUFFER_SIZE))\<rparr>)"

subsection \<open>put\<close>

definition single_character_error :: js_error where
  "single_character_error = Error ''only accepts single character String, Uint8Array or Array''"

definition byte_range_error :: js_error where
  "byte_range_error = Error ''only accepts number in a valid unsigned byte range 0-255''"

text \<open>The byte decoded from the argument: \<open>charCodeAt(0)\<close>, element 0, or the number.\<close>

fun decode_byte :: "jsval \<Rightarrow> int option" where
  "decode_byte (Str []) = None"
| "decode_byte (Str (c # cs)) = Some (uint c)"
| "decode_byte (Seq q) = seq_get q 0"
| "decode_byte (Num n) = Some n"

text \<open>The loop that copies every element of the old store into the new \<open>Array\<close>.\<close>

definition copy_content :: "seq \<Rightarrow> seq \<Rightarrow> seq" where
  "copy_content old new = fold (\<lambda>i b. seq_set b i (seq_get old i)) [0..<seq_length old] new"

definition Binary_put :: "jsval \<Rightarrow> Binary \<Rightarrow> js_error option \<times> Binary" where
  "Binary_put byte_value this =
     (if js_length byte_value \<noteq> None \<and> \<not> isNumber byte_value \<and> js_length byte_value \<noteq> Some 1
        then (Some single_character_error, this)
      else if (\<not> isNumber byte_value \<and> js_less byte_value 0) \<or> js_greater byte_value 255
        then (Some byte_range_error, this)
      else
        let decoded_byte = decode_byte byte_value in
        case buffer this of
          None \<Rightarrow> (Some TypeError, this)
        | Some buf \<Rightarrow>
            if seq_length buf > position this then
              (None, this\<lparr>buffer := Some (seq_set buf (position this) decoded_byte),
                          position := position this + 1\<rparr>)
            else
              (case buf of
                 Buffer bs \<Rightarrow>
                   let grown = Buffer_copy bs (new_Buffer (BUFFER_SIZE + length bs)) 0 0 (length bs)
                   in (None, this\<lparr>buffer := Some (seq_set (Buffer grown) (position this) decoded_byte),
                                  position := position this + 1\<rparr>)
               | _ \<Rightarrow>
                   let grown = copy_content buf (Array (new_Array (BUFFER_SIZE + seq_length buf)))
                   in (None, this\<lparr>buffer := Some (seq_set grown (position this) decoded_byte),
                                  position := position this + 1\<rparr>)))"

subsection \<open>write\<close>

text \<open>
  The two element loops of \<open>write\<close> store one value after the other from
  \<open>offset\<close>. On a \<open>null\<close> store the first assignment is a \<open>TypeError\<close>; with
  nothing to store the loop does not run and only the cursor is set.
\<close>

fun store_elems :: "int option list \<Rightarrow> nat \<Rightarrow> seq \<Rightarrow> seq" where
  "store_elems [] offset q = q"
| "store_elems (v # vs) offset q = store_elems vs (Suc offset) (seq_set q offset v)"

definition new_position :: "nat \<Rightarrow> nat \<Rightarrow> nat" where
  "new_position end' pos = (if end' > pos then end' else pos)"

fun write_elems :: "int option list \<Rightarrow> seq option \<Rightarrow> nat \<Rightarrow> nat \<Rightarrow> js_error + (seq option \<times> nat)" where
  "write_elems [] None offset pos = Inr (None, new_position offset pos)"
| "write_elems (v # vs) None offset pos = Inl TypeError"
| "write_elems vs (Some q) offset pos =
     Inr (Some (store_elems vs offset q), new_position (offset + length vs) pos)"

text \<open>
  The chain of tests that picks how the data is copied, in the order of the
  source; the result is the store and the cursor afterwards. Data that is neither
  a \<open>Buffer\<close>, a string nor an \<open>Array\<close> matches no test and is not copied.
\<close>

fun write_data :: "jsval \<Rightarrow> seq option \<Rightarrow> nat \<Rightarrow> nat \<Rightarrow> js_error + (seq option \<times> nat)" where
  "write_data (Seq (Buffer d)) (Some (Buffer t)) offset pos =
     Inr (Some (Buffer (Buffer_copy d t offset 0 (length d))), new_position (offset + length d) pos)"
| "write_data (Str s) (Some (Buffer t)) offset pos =
     (case Buffer_write_binary t s offset of
        Inl e \<Rightarrow> Inl e
      | Inr t' \<Rightarrow> Inr (Some (Buffer t'), new_position (offset + length s) pos))"
| "write_data (Seq (Buffer d)) b offset pos = write_elems (seq_elems (Buffer d)) b offset pos"
| "write_data (Seq (Array xs)) b offset pos = write_elems xs b offset pos"
| "write_data (Str s) b offset pos = write_elems (map (\<lambda>c. Some (uint c)) s) b offset pos"
| "write_data v b offset pos = Inr (b, pos)"

text \<open>
  The store is extended when \<open>this.buffer.length < offset + string.length\<close> (never
  for data without a length). Both branches of the extension test
  \<open>Buffer.isBuffer(this.buffer)\<close>, so a store that is not a \<open>Buffer\<close> is replaced
  by \<open>null\<close>.
\<close>

definition too_small :: "seq \<Rightarrow> nat \<Rightarrow> jsval \<Rightarrow> bool" where
  "too_small buf offset string' =
     (case js_length string' of None \<Rightarrow> False | Some n \<Rightarrow> seq_length buf < offset + n)"

fun extend :: "seq \<Rightarrow> nat \<Rightarrow> seq option" where
  "extend (Buffer bs) n =
     Some (Buffer (Buffer_copy bs (new_Buffer (length bs + n)) 0 0 (length bs)))"
| "extend q n = None"

definition Binary_write :: "jsval \<Rightarrow> nat option \<Rightarrow> Binary \<Rightarrow> js_error option \<times> Binary" where
  "Binary_write string' offset' this =
     (case buffer this of
        None \<Rightarrow> (Some TypeError, this)
      | Some buf \<Rightarrow>
          (let offset = (case offset' of Some n \<Rightarrow> n | None \<Rightarrow> position this);
               buf' = (if too_small buf offset string'
                       then extend buf (case js_length string' of Some n \<Rightarrow> n | None \<Rightarrow> 0)
                       else Some buf)
           in (case write_data string' buf' offset (position this) of
                 Inl e \<Rightarrow> (Some e, this\<lparr>buffer := buf'\<rparr>)
               | Inr r \<Rightarrow> (None, this\<lparr>buffer := fst r, position := snd r\<rparr>))))"

subsection \<open>read, value, length, toJSON\<close>

text \<open>
  \<open>read(position, length)\<close>. Every kind of store has a \<open>slice\<close> method, so the
  call returns the slice; the element loop after it is never reached. Reading a
  property of a \<open>null\<close> store is a \<open>TypeError\<close>.
\<close>

definition Binary_read :: "int \<Rightarrow> int option \<Rightarrow> Binary \<Rightarrow> js_error + seq" where
  "Binary_read position' length' this =
     (let len = (case length' of
                   None \<Rightarrow> int (position this)
                 | Some l \<Rightarrow> if l \<noteq> 0 \<and> l > 0 then l else int (position this))
      in case buffer this of
           None \<Rightarrow> Inl TypeError
         | Some q \<Rightarrow> Inr (seq_slice q position' (position' + len)))"

text \<open>\<open>String.fromCharCode\<close>: the value modulo \<open>2^16\<close>; \<open>undefined\<close> gives 0.\<close>

fun fromCharCode :: "int option \<Rightarrow> code_unit" where
  "fromCharCode None = 0"
| "fromCharCode (Some n) = word_of_int n"

fun convert_loop :: "seq option \<Rightarrow> nat \<Rightarrow> nat \<Rightarrow> jsstring \<Rightarrow> js_error + jsstring" where
  "convert_loop byteArray i 0 result = Inr result"
| "convert_loop None i (Suc n) result = Inl TypeError"
| "convert_loop (Some q) i (Suc n) result =
     convert_loop (Some q) (Suc i) n (result @ [fromCharCode (seq_get q i)])"

definition convertArraytoUtf8BinaryString :: "seq option \<Rightarrow> nat \<Rightarrow> nat \<Rightarrow> js_error + jsstring" where
  "convertArraytoUtf8BinaryString byteArray startIndex endIndex =
     convert_loop byteArray startIndex (endIndex - startIndex) []"

text \<open>\<open>value(asRaw)\<close>: the first \<open>position\<close> bytes, as a string or as a slice.\<close>

definition Binary_value :: "bool option \<Rightarrow> Binary \<Rightarrow> js_error + jsval" where
  "Binary_value asRaw' this =
     (let asRaw = (case asRaw' of None \<Rightarrow> False | Some a \<Rightarrow> a) in
      case buffer this of
        Some (Buffer bs) \<Rightarrow>
          if asRaw then Inr (Seq (seq_slice (Buffer bs) 0 (int (position this))))
          else Inr (Str (Buffer_toString_binary bs 0 (position this)))
      | Some q \<Rightarrow>
          if asRaw then Inr (Seq (seq_slice q 0 (int (position this))))
          else map_sum id Str (convertArraytoUtf8BinaryString (Some q) 0 (position this))
      | None \<Rightarrow>
          if asRaw then Inl TypeError
          else map_sum id Str (convertArraytoUtf8BinaryString None 0 (position this)))"

definition Binary_length :: "Binary \<Rightarrow> nat" where
  "Binary_length this = position this"

definition Binary_toJSON :: "Binary \<Rightarrow> jsstring" where
  "Binary_toJSON this = (case buffer this of None \<Rightarrow> [] | Some q \<Rightarrow> seq_toString q)"

text \<open>The capacity of the store, where there is one.\<close>

definition capacity :: "Binary \<Rightarrow> nat option" where
  "capacity this = map_option seq_length (buffer this)"

subsection \<open>Notions used to state the properties\<close>

text \<open>\<open>this.buffer[i]\<close>, with \<open>undefined\<close> for a \<open>null\<close> store as well.\<close>

definition store_get :: "Binary \<Rightarrow> nat \<Rightarrow> int option" where
  "store_get this i = (case buffer this of None \<Rightarrow> None | Some q \<Rightarrow> seq_get q i)"

text \<open>
  What \<open>this.buffer[position]\<close> reads after put has stored the decoded value
  \<open>d\<close> there, given the store before the call: a Buffer, and a \<open>Uint8Array\<close>
  with room left, keep \<open>d\<close> modulo 256 (0 for \<open>undefined\<close>); an \<open>Array\<close>,
  and the \<open>Array\<close> that replaces a full \<open>Uint8Array\<close>, keep \<open>d\<close> itself.
\<close>

fun stored_byte :: "seq \<Rightarrow> nat \<Rightarrow> int option \<Rightarrow> int option" where
  "stored_byte (Buffer bs) pos d = Some (case d of None \<Rightarrow> 0 | Some n \<Rightarrow> n mod 256)"
| "stored_byte (Uint8Array bs) pos d =
     (if pos < length bs then Some (case d of None \<Rightarrow> 0 | Some n \<Rightarrow> n mod 256) else d)"
| "stored_byte (Array xs) pos d = d"

text \<open>
  The effect of an append on the instance \<open>this\<close> with store \<open>buf\<close>: the capacity
  grows by exactly 256 when it equals the cursor and stays otherwise; the
  elements below the old cursor, and every element but the one written when
  there was room, are where they were; the value is at the old cursor; the cursor
  has advanced by one; the subtype is the same.
\<close>

definition put_result :: "Binary \<Rightarrow> seq \<Rightarrow> int option \<Rightarrow> Binary \<Rightarrow> bool" where
  "put_result this buf d this' =
     (capacity this' = Some (if seq_length buf = position this then seq_length buf + 256
                             else seq_length buf)
      \<and> (\<forall>i<position this. store_get this' i = seq_get buf i)
      \<and> (position this < seq_length buf \<longrightarrow>
            (\<forall>i. i \<noteq> position this \<longrightarrow> store_get this' i = seq_get buf i))
      \<and> store_get this' (position this) = stored_byte buf (position this) d
      \<and> position this' = position this + 1
      \<and> sub_type this' = sub_type this)"

text \<open>The length \<open>read\<close> works with: the argument when it is positive, the cursor otherwise.\<close>

definition effective_length :: "int option \<Rightarrow> Binary \<Rightarrow> int" where
  "effective_length length' this =
     (case length' of
        None \<Rightarrow> int (position this)
      | Some l \<Rightarrow> if l > 0 then l else int (position this))"

text \<open>The invariant of the data model: there is a store, and the cursor is within it.\<close>

definition cursor_within_store :: "Binary \<Rightarrow> bool" where
  "cursor_within_store this =
     (case buffer this of None \<Rightarrow> False | Some q \<Rightarrow> position this \<le> seq_length q)"

text \<open>A string of 7-bit characters.\<close>

definition ascii :: "jsstring \<Rightarrow> bool" where
  "ascii s = list_all (\<lambda>c. c < 0x80) s"

text \<open>
  The bytes a Buffer store receives from the data of a \<open>write\<close>: those of a
  Buffer, the converted elements of an \<open>Array\<close>.
\<close>

fun data_bytes :: "jsval \<Rightarrow> byte list" where
  "data_bytes (Seq (Buffer d)) = d"
| "data_bytes (Seq (Array xs)) = map ToUint8 xs"
| "data_bytes v = []"

section \<open>Properties\<close>

subsection \<open>Auxiliary facts about the store operations\<close>

lemma length_Buffer_copy [simp]:
  "length (Buffer_copy source target targetStart sourceStart sourceEnd) = length target"
  by (auto simp: Buffer_copy_def Let_def)

lemma Buffer_copy_whole:
  "Buffer_copy bs (new_Buffer (length bs + n)) 0 0 (length bs) = bs @ replicate n 0"
  by (cases "bs = []") (auto simp: Buffer_copy_def new_Buffer_def Let_def)

lemma seq_get_elems: "seq_get q i = (if i < seq_length q then seq_elems q ! i else None)"
  by (cases q) auto

lemma length_seq_elems [simp]: "length (seq_elems q) = seq_length q"
  by (cases q) auto

lemma copy_content_aux:
  "k \<le> seq_length old \<Longrightarrow> seq_length old \<le> length xs \<Longrightarrow>
   fold (\<lambda>i b. seq_set b i (seq_get old i)) [0..<k] (Array xs)
     = Array (take k (seq_elems old) @ drop k xs)"
proof (induction k)
  case 0
  then show ?case by simp
next
  case (Suc k)
  have k: "k < seq_length old" "k < length xs" using Suc.prems by auto
  have "fold (\<lambda>i b. seq_set b i (seq_get old i)) [0..<Suc k] (Array xs)
      = seq_set (Array (take k (seq_elems old) @ drop k xs)) k (seq_get old k)"
    using Suc by simp
  also have "\<dots> = Array ((take k (seq_elems old) @ drop k xs)[k := seq_elems old ! k])"
    using k by (simp add: seq_get_elems)
  also have "(take k (seq_elems old) @ drop k xs)[k := seq_elems old ! k]
      = take (Suc k) (seq_elems old) @ drop (Suc k) xs"
    using k by (simp add: list_update_append take_Suc_conv_app_nth upd_conv_take_nth_drop
        min_def Cons_nth_drop_Suc [symmetric])
  finally show ?case .
qed

lemma copy_content_Array:
  "copy_content old (Array (new_Array (n + seq_length old)))
     = Array (seq_elems old @ replicate n None)"
  unfolding copy_content_def new_Array_def
  by (subst copy_content_aux) simp_all

lemma store_elems_Buffer:
  "offset + length vs \<le> length bs \<Longrightarrow>
   store_elems vs offset (Buffer bs)
     = Buffer (take offset bs @ map ToUint8 vs @ drop (offset + length vs) bs)"
proof (induction vs arbitrary: offset bs)
  case Nil
  then show ?case by simp
next
  case (Cons v vs)
  then have "store_elems (v # vs) offset (Buffer bs)
      = Buffer (take (Suc offset) (bs[offset := ToUint8 v]) @ map ToUint8 vs
          @ drop (Suc offset + length vs) (bs[offset := ToUint8 v]))"
    by simp
  also have "take (Suc offset) (bs[offset := ToUint8 v]) = take offset bs @ [ToUint8 v]"
    using Cons.prems by (simp add: take_Suc_conv_app_nth)
  finally show ?case by simp
qed

lemma ucast_byte_roundtrip:
  assumes "c < 0x100"
  shows "ucast (ucast c :: byte) = (c :: code_unit)"
proof -
  have "unat c < 256" using assms by (simp add: word_less_nat_alt)
  then have "unat (ucast (ucast c :: byte) :: code_unit) = unat c"
    by (simp add: unsigned_ucast_eq take_bit_eq_mod unat_mod_distrib)
  then show ?thesis by (simp add: word_unat_eq_iff)
qed

lemma length_utf8_encode: "length s \<le> length (utf8_encode s)"
  by (induction s rule: utf8_encode.induct) (auto simp: utf8_2_def utf8_3_def utf8_4_def)

lemma utf8_encode_ascii: "ascii s \<Longrightarrow> utf8_encode s = latin1_encode s"
  by (induction s rule: utf8_encode.induct) (auto simp: ascii_def latin1_encode_def)

lemma latin1_roundtrip: "list_all (\<lambda>c. c < 0x100) s \<Longrightarrow> latin1_decode (latin1_encode s) = s"
  by (induction s) (auto simp: latin1_decode_def latin1_encode_def ucast_byte_roundtrip)

lemma ascii_below_256: "ascii s \<Longrightarrow> list_all (\<lambda>c. c < 0x100) s"
  unfolding ascii_def by (induction s) (auto elim: order_less_trans)

subsection \<open>Construction\<close>

text \<open>Every constructor call leaves the cursor within the store.\<close>

lemma new_Binary_cursor_within_store: "cursor_within_store (new_Binary b subType)"
  by (auto simp: new_Binary_def cursor_within_store_def length_utf8_encode Let_def
      split: option.splits jsval.splits)

text \<open>
  Claim C4: constructing from a string stores one byte per character, the code
  point modulo 256, with cursor and capacity equal to the length of the string.
  The constructor encodes the string as UTF-8 instead: for the one-character
  string U+00E9 the store holds the two bytes C3 A9, so the capacity is 2, while
  the cursor is the string length 1.
\<close>

theorem construct_from_string_is_utf8:
  "new_Binary (Some (Str [0xE9])) None
     = \<lparr>sub_type = 0, position = 1, buffer = Some (Buffer [0xC3, 0xA9])\<rparr>
   \<and> capacity (new_Binary (Some (Str [0xE9])) None) = Some 2
   \<and> latin1_encode [0xE9] = [0xE9]"
  by code_simp

text \<open>For a string of 7-bit characters the two encodings agree, and C4 holds.\<close>

lemma construct_from_ascii_string:
  assumes "ascii s"
  shows "new_Binary (Some (Str s)) subType
           = \<lparr>sub_type = (case subType of None \<Rightarrow> 0 | Some t \<Rightarrow> t), position = length s,
               buffer = Some (Buffer (latin1_encode s))\<rparr>
       \<and> capacity (new_Binary (Some (Str s)) subType) = Some (length s)"
  using assms
  by (simp add: new_Binary_def utf8_encode_ascii BSON_BINARY_SUBTYPE_DEFAULT_def capacity_def
      latin1_encode_def split: option.splits)

text \<open>
  Claim C5: constructing from a string whose character codes are all at most 255
  and extracting with value(false) returns the string. For the string U+00E9 the
  extraction decodes the first byte of the UTF-8 form and returns U+00C3.
\<close>

theorem string_round_trip_fails_above_127:
  "Binary_value (Some False) (new_Binary (Some (Str [0xE9])) None) = Inr (Str [0xC3])"
  by code_simp

text \<open>The round trip holds for a string of 7-bit characters.\<close>

lemma ascii_string_round_trip:
  assumes "ascii s"
  shows "Binary_value (Some False) (new_Binary (Some (Str s)) subType) = Inr (Str s)"
  using assms latin1_roundtrip [OF ascii_below_256 [OF assms]]
  by (simp add: new_Binary_def utf8_encode_ascii Binary_value_def Buffer_toString_binary_def
      latin1_encode_def)

subsection \<open>put\<close>

text \<open>The outcome of a successful put, with the two loops and copies resolved.\<close>

lemma put_success:
  assumes "Binary_put byte_value this = (None, this')"
  shows "\<exists>buf. buffer this = Some buf \<and>
           this' = this\<lparr>buffer := Some (seq_set
                       (if seq_length buf > position this then buf
                        else case buf of Buffer bs \<Rightarrow> Buffer (bs @ replicate 256 0)
                             | _ \<Rightarrow> Array (seq_elems buf @ replicate 256 None))
                       (position this) (decode_byte byte_value)),
                     position := position this + 1\<rparr>"
proof -
  from assms obtain buf where b: "buffer this = Some buf"
    by (auto simp: Binary_put_def Let_def split: if_splits option.splits)
  have g: "copy_content (Uint8Array bs) (Array (new_Array (BUFFER_SIZE + length bs)))
             = Array (map (\<lambda>b. Some (uint b)) bs @ replicate 256 None)" for bs
    using copy_content_Array [of "Uint8Array bs" 256] by (simp add: BUFFER_SIZE_def)
  have g': "copy_content (Array xs) (Array (new_Array (BUFFER_SIZE + length xs)))
             = Array (xs @ replicate 256 None)" for xs
    using copy_content_Array [of "Array xs" 256] by (simp add: BUFFER_SIZE_def)
  have h: "Buffer_copy bs (new_Buffer (BUFFER_SIZE + length bs)) 0 0 (length bs) = bs @ replicate 256 0" for bs
    using Buffer_copy_whole [of bs 256] by (simp add: BUFFER_SIZE_def add.commute)
  from assms b show ?thesis
    by (cases buf) (auto simp: Binary_put_def Let_def g g' h split: if_splits)
qed

text \<open>
  A put that raises leaves the instance as it was; a number is rejected exactly
  when it exceeds 255; a string or sequence is rejected when its length is not 1.
\<close>

lemma put_raise_unchanged:
  "Binary_put byte_value this = (Some e, this') \<Longrightarrow> this' = this"
  by (auto simp: Binary_put_def Let_def split: if_splits option.splits seq.splits)

lemma put_number_raises_iff:
  "fst (Binary_put (Num n) this) = Some byte_range_error \<longleftrightarrow> n > 255"
  by (auto simp: Binary_put_def Let_def js_less_def js_greater_def byte_range_error_def
      split: if_splits option.splits seq.splits)

lemma put_length_check:
  "js_length v = Some k \<Longrightarrow> k \<noteq> 1 \<Longrightarrow> Binary_put v this = (Some single_character_error, this)"
  by (cases v) (auto simp: Binary_put_def)

text \<open>
  Claim C2: put raises exactly for a string or sequence whose length is not 1 and
  for a number outside 0-255, negative numbers included, and leaves the instance
  unchanged when it raises. In the range test of the code the comparison with 0
  is guarded by "not a number", so a negative number passes: put(-1) on a fresh
  instance raises nothing, stores the byte 255 and advances the cursor.
\<close>

theorem put_accepts_negative_number:
  "(let r = Binary_put (Num (- 1)) (new_Binary None None)
    in fst r = None \<and> position (snd r) = 1 \<and> store_get (snd r) 0 = Some 255
       \<and> capacity (snd r) = Some 256)"
  by code_simp

text \<open>put keeps the cursor within the store.\<close>

lemma put_cursor_within_store:
  assumes "cursor_within_store this"
  shows "cursor_within_store (snd (Binary_put byte_value this))"
proof (cases "fst (Binary_put byte_value this)")
  case None
  then have h: "Binary_put byte_value this = (None, snd (Binary_put byte_value this))"
    by (simp add: prod_eq_iff)
  from put_success [OF h] obtain buf where b: "buffer this = Some buf"
    and t: "snd (Binary_put byte_value this) = this\<lparr>buffer := Some (seq_set
                       (if seq_length buf > position this then buf
                        else case buf of Buffer bs \<Rightarrow> Buffer (bs @ replicate 256 0)
                             | _ \<Rightarrow> Array (seq_elems buf @ replicate 256 None))
                       (position this) (decode_byte byte_value)),
                     position := position this + 1\<rparr>"
    by blast
  show ?thesis
    unfolding t using assms b
    by (cases buf) (auto simp: cursor_within_store_def)
next
  case (Some e)
  then have "Binary_put byte_value this = (Some e, snd (Binary_put byte_value this))"
    by (simp add: prod_eq_iff)
  from put_raise_unchanged [OF this] assms show ?thesis by simp
qed

text \<open>
  A put on an instance with a store succeeds when the argument passes the two
  checks, and a put that succeeds has appended the decoded value.
\<close>

lemma uint_ToUint8: "uint (ToUint8 d) = (case d of None \<Rightarrow> 0 | Some n \<Rightarrow> n mod 256)"
  by (cases d) (simp_all add: uint_word_of_int take_bit_eq_mod)

lemma put_succeeds:
  assumes "buffer this = Some buf"
    and "\<not> (js_length v \<noteq> None \<and> \<not> isNumber v \<and> js_length v \<noteq> Some 1)"
    and "\<not> ((\<not> isNumber v \<and> js_less v 0) \<or> js_greater v 255)"
  shows "fst (Binary_put v this) = None"
  using assms by (cases buf) (auto simp: Binary_put_def Let_def)

lemma put_result_of_success:
  assumes "Binary_put v this = (None, this')" and "buffer this = Some buf"
    and "position this \<le> seq_length buf"
  shows "put_result this buf (decode_byte v) this'"
proof -
  from put_success [OF assms(1)] assms(2)
  have t: "this' = this\<lparr>buffer := Some (seq_set
                       (if seq_length buf > position this then buf
                        else case buf of Buffer bs \<Rightarrow> Buffer (bs @ replicate 256 0)
                             | _ \<Rightarrow> Array (seq_elems buf @ replicate 256 None))
                       (position this) (decode_byte v)),
                     position := position this + 1\<rparr>"
    by auto
  show ?thesis
  proof (cases "seq_length buf > position this")
    case True
    then show ?thesis using t
      by (cases buf)
         (auto simp: put_result_def capacity_def store_get_def uint_ToUint8 simp del: ToUint8.simps)
  next
    case False
    with assms(3) have "seq_length buf = position this" by simp
    then show ?thesis using t
      by (cases buf)
         (auto simp: put_result_def capacity_def store_get_def uint_ToUint8 nth_append
            simp del: ToUint8.simps)
  qed
qed

lemma put_valid:
  assumes "buffer this = Some buf" and "position this \<le> seq_length buf"
    and "\<not> (js_length v \<noteq> None \<and> \<not> isNumber v \<and> js_length v \<noteq> Some 1)"
    and "\<not> ((\<not> isNumber v \<and> js_less v 0) \<or> js_greater v 255)"
  shows "\<exists>this'. Binary_put v this = (None, this') \<and> put_result this buf (decode_byte v) this'"
proof -
  have "Binary_put v this = (None, snd (Binary_put v this))"
    using put_succeeds [OF assms(1,3,4)] by (simp add: prod_eq_iff)
  from this put_result_of_success [OF this assms(1,2)] show ?thesis by blast
qed

text \<open>
  The checks pass for every one-character string and one-byte typed array; the
  arguments of a successful put are those listed in C8 below.
\<close>

lemma char_ToNumber_range: "char_ToNumber c = Some n \<Longrightarrow> 0 \<le> n \<and> n \<le> 255"
  by (auto simp: char_ToNumber_def word_le_def split: if_splits)

lemma put_guards_single_char:
  "\<not> js_less (Str [c]) 0" "\<not> js_greater (Str [c]) 255"
  "\<not> js_less (Seq (Buffer [b])) 0" "\<not> js_greater (Seq (Buffer [b])) 255"
  using char_ToNumber_range
  by (fastforce simp: js_less_def js_greater_def split: option.splits)+

lemma put_guards_single_byte:
  "\<not> js_less (Seq (Uint8Array [b])) 0" "\<not> js_greater (Seq (Uint8Array [b])) 255"
  using uint_bounded [of b] by (simp_all add: js_less_def js_greater_def)

lemma singleton_length: "length xs = Suc 0 \<longleftrightarrow> (\<exists>x. xs = [x])"
  by (cases xs) auto

lemma put_success_argument:
  assumes "Binary_put v this = (None, this')"
  shows "(\<exists>n. v = Num n \<and> n \<le> 255) \<or> (\<exists>c. v = Str [c])
       \<or> (\<exists>n. v = Seq (Array [Some n]) \<and> 0 \<le> n \<and> n \<le> 255) \<or> v = Seq (Array [None])
       \<or> (\<exists>b. v = Seq (Uint8Array [b])) \<or> (\<exists>b. v = Seq (Buffer [b]))"
proof -
  from assms have g1: "\<not> (js_length v \<noteq> None \<and> \<not> isNumber v \<and> js_length v \<noteq> Some 1)"
    and g2: "\<not> ((\<not> isNumber v \<and> js_less v 0) \<or> js_greater v 255)"
    by (auto simp: Binary_put_def split: if_splits)
  show ?thesis
  proof (cases v)
    case (Num n)
    with g2 show ?thesis by (simp add: js_greater_def)
  next
    case (Str s)
    with g1 show ?thesis by (simp add: singleton_length)
  next
    case (Seq q)
    show ?thesis
    proof (cases q)
      case (Buffer bs)
      with Seq g1 show ?thesis by (simp add: singleton_length)
    next
      case (Uint8Array bs)
      with Seq g1 show ?thesis by (simp add: singleton_length)
    next
      case (Array xs)
      with Seq g1 obtain x where x: "xs = [x]" by (auto simp: singleton_length)
      with Seq Array g2 show ?thesis
        by (cases x) (auto simp: js_less_def js_greater_def)
    qed
  qed
qed

text \<open>
  Claim C8: on an instance whose capacity equals its cursor, a successful put
  extends the store to exactly the old capacity plus 256, keeps every element
  below the old cursor where it was, writes the decoded byte at the old cursor and
  advances the cursor by one; when the capacity exceeds the cursor the byte is
  written in place and the store keeps its size and every other element. Stated
  for every instance with a store (Buffer, Uint8Array or Array) and a cursor
  within it, and for every argument put accepts, each with the byte it decodes
  to: a number up to 255, a one-character string (its character code), a
  one-element Array holding a number in 0-255 or a hole, a one-byte Uint8Array
  or Buffer. Each of these puts succeeds and has the effect above, and no other
  argument gives a successful put.
\<close>

theorem put_appends_one_byte:
  assumes "buffer this = Some buf" and "position this \<le> seq_length buf"
  shows "(\<forall>n. n \<le> 255 \<longrightarrow>
            (\<exists>this'. Binary_put (Num n) this = (None, this')
                   \<and> put_result this buf (Some n) this'))
       \<and> (\<forall>c. \<exists>this'. Binary_put (Str [c]) this = (None, this')
                   \<and> put_result this buf (Some (uint c)) this')
       \<and> (\<forall>n. 0 \<le> n \<and> n \<le> 255 \<longrightarrow>
            (\<exists>this'. Binary_put (Seq (Array [Some n])) this = (None, this')
                   \<and> put_result this buf (Some n) this'))
       \<and> (\<exists>this'. Binary_put (Seq (Array [None])) this = (None, this')
                   \<and> put_result this buf None this')
       \<and> (\<forall>b. \<exists>this'. Binary_put (Seq (Uint8Array [b])) this = (None, this')
                   \<and> put_result this buf (Some (uint b)) this')
       \<and> (\<forall>b. \<exists>this'. Binary_put (Seq (Buffer [b])) this = (None, this')
                   \<and> put_result this buf (Some (uint b)) this')
       \<and> (\<forall>v this'. Binary_put v this = (None, this') \<longrightarrow>
            (\<exists>n. v = Num n \<and> n \<le> 255) \<or> (\<exists>c. v = Str [c])
          \<or> (\<exists>n. v = Seq (Array [Some n]) \<and> 0 \<le> n \<and> n \<le> 255) \<or> v = Seq (Array [None])
          \<or> (\<exists>b. v = Seq (Uint8Array [b])) \<or> (\<exists>b. v = Seq (Buffer [b])))"
proof -
  note valid = put_valid [OF assms]
  have num: "\<exists>this'. Binary_put (Num n) this = (None, this')
                   \<and> put_result this buf (Some n) this'" if "n \<le> 255" for n
    using valid [of "Num n"] that by (simp add: js_greater_def)
  have str: "\<exists>this'. Binary_put (Str [c]) this = (None, this')
                   \<and> put_result this buf (Some (uint c)) this'" for c
    using valid [of "Str [c]"] by (simp add: put_guards_single_char)
  have arr: "\<exists>this'. Binary_put (Seq (Array [Some n])) this = (None, this')
                   \<and> put_result this buf (Some n) this'" if "0 \<le> n \<and> n \<le> 255" for n
    using valid [of "Seq (Array [Some n])"] that by (simp add: js_less_def js_greater_def)
  have hole: "\<exists>this'. Binary_put (Seq (Array [None])) this = (None, this')
                   \<and> put_result this buf None this'"
    using valid [of "Seq (Array [None])"] by (simp add: js_less_def js_greater_def)
  have u8: "\<exists>this'. Binary_put (Seq (Uint8Array [b])) this = (None, this')
                   \<and> put_result this buf (Some (uint b)) this'" for b
    using valid [of "Seq (Uint8Array [b])"] by (simp add: put_guards_single_byte)
  have buf: "\<exists>this'. Binary_put (Seq (Buffer [b])) this = (None, this')
                   \<and> put_result this buf (Some (uint b)) this'" for b
    using valid [of "Seq (Buffer [b])"] by (simp add: put_guards_single_char)
  from num str arr hole u8 buf put_success_argument show ?thesis by blast
qed

text \<open>
  Instances of C8: put(7) on the full Array store [1, 2, 3], put of the one-byte
  Buffer [200] on the full Uint8Array store [1, 2], put([9]) on the full Buffer
  store [1, 2, 3], and put("A") on a fresh instance, which has room left.
\<close>

theorem put_appends_one_byte_witness:
  "(fst (Binary_put (Num 7) (new_Binary (Some (Seq (Array [Some 1, Some 2, Some 3]))) None)) = None
    \<and> capacity (snd (Binary_put (Num 7)
          (new_Binary (Some (Seq (Array [Some 1, Some 2, Some 3]))) None))) = Some 259
    \<and> store_get (snd (Binary_put (Num 7)
          (new_Binary (Some (Seq (Array [Some 1, Some 2, Some 3]))) None))) 3 = Some 7
    \<and> store_get (snd (Binary_put (Num 7)
          (new_Binary (Some (Seq (Array [Some 1, Some 2, Some 3]))) None))) 2 = Some 3
    \<and> position (snd (Binary_put (Num 7)
          (new_Binary (Some (Seq (Array [Some 1, Some 2, Some 3]))) None))) = 4)
   \<and> (fst (Binary_put (Seq (Buffer [200])) (new_Binary (Some (Seq (Uint8Array [1, 2]))) None)) = None
    \<and> capacity (snd (Binary_put (Seq (Buffer [200]))
          (new_Binary (Some (Seq (Uint8Array [1, 2]))) None))) = Some 258
    \<and> store_get (snd (Binary_put (Seq (Buffer [200]))
          (new_Binary (Some (Seq (Uint8Array [1, 2]))) None))) 2 = Some 200
    \<and> position (snd (Binary_put (Seq (Buffer [200]))
          (new_Binary (Some (Seq (Uint8Array [1, 2]))) None))) = 3)
   \<and> (fst (Binary_put (Seq (Array [Some 9])) (new_Binary (Some (Seq (Buffer [1, 2, 3]))) None)) = None
    \<and> capacity (snd (Binary_put (Seq (Array [Some 9]))
          (new_Binary (Some (Seq (Buffer [1, 2, 3]))) None))) = Some 259
    \<and> store_get (snd (Binary_put (Seq (Array [Some 9]))
          (new_Binary (Some (Seq (Buffer [1, 2, 3]))) None))) 3 = Some 9
    \<and> position (snd (Binary_put (Seq (Array [Some 9]))
          (new_Binary (Some (Seq (Buffer [1, 2, 3]))) None))) = 4)
   \<and> (fst (Binary_put (Str [0x41]) (new_Binary None None)) = None
    \<and> capacity (snd (Binary_put (Str [0x41]) (new_Binary None None))) = Some 256
    \<and> store_get (snd (Binary_put (Str [0x41]) (new_Binary None None))) 0 = Some 65
    \<and> position (snd (Binary_put (Str [0x41]) (new_Binary None None))) = 1)"
proof -
  let ?A = "new_Binary (Some (Seq (Array [Some 1, Some 2, Some 3]))) None"
  let ?U = "new_Binary (Some (Seq (Uint8Array [1, 2]))) None"
  let ?B = "new_Binary (Some (Seq (Buffer [1, 2, 3]))) None"
  let ?F = "new_Binary None None"
  have bA: "buffer ?A = Some (Array [Some 1, Some 2, Some 3])" and pA: "position ?A = 3"
    by code_simp+
  have bU: "buffer ?U = Some (Uint8Array [1, 2])" and pU: "position ?U = 2"
    by code_simp+
  have bB: "buffer ?B = Some (Buffer [1, 2, 3])" and pB: "position ?B = 3"
    by code_simp+
  have bF: "buffer ?F = Some (Buffer (replicate 256 0))" and pF: "position ?F = 0"
    by code_simp+
  have A: "position ?A \<le> seq_length (Array [Some 1, Some 2, Some 3])" using pA by simp
  have U: "position ?U \<le> seq_length (Uint8Array [1, 2])" using pU by simp
  have B: "position ?B \<le> seq_length (Buffer [1, 2, 3])" using pB by simp
  have F: "position ?F \<le> seq_length (Buffer (replicate 256 0))" using pF by simp
  have n7: "(7 :: int) \<le> 255" and n9: "(0 :: int) \<le> 9 \<and> (9 :: int) \<le> 255" by simp_all
  from put_appends_one_byte [OF bA A] n7
  obtain a where a: "Binary_put (Num 7) ?A = (None, a)"
      "put_result ?A (Array [Some 1, Some 2, Some 3]) (Some 7) a"
    by blast
  from put_appends_one_byte [OF bU U]
  obtain u where u: "Binary_put (Seq (Buffer [200])) ?U = (None, u)"
      "put_result ?U (Uint8Array [1, 2]) (Some (uint (200 :: byte))) u"
    by blast
  from put_appends_one_byte [OF bB B] n9
  obtain b where b: "Binary_put (Seq (Array [Some 9])) ?B = (None, b)"
      "put_result ?B (Buffer [1, 2, 3]) (Some 9) b"
    by blast
  from put_appends_one_byte [OF bF F]
  obtain f where f: "Binary_put (Str [0x41]) ?F = (None, f)"
      "put_result ?F (Buffer (replicate 256 0)) (Some (uint (0x41 :: code_unit))) f"
    by blast
  show ?thesis
    using a u b f pA pU pB pF by (simp add: put_result_def)
qed

subsection \<open>write\<close>

text \<open>
  A write of a Buffer or an \<open>Array\<close> into a Buffer store, from an offset within
  the old capacity: the store is extended by the length of the data if the data
  would not fit, the data lands at the offset, everything else stays, and the
  cursor is the larger of its old value and the end of the data. Such a write
  keeps the cursor within the store.
\<close>

lemma Buffer_copy_fits:
  "offset + length d \<le> length t \<Longrightarrow>
   Buffer_copy d t offset 0 (length d) = take offset t @ d @ drop (offset + length d) t"
  by (cases "d = []") (auto simp: Buffer_copy_def Let_def min_def)

lemma length_data_bytes:
  "isBuffer_val data \<or> isArray data \<Longrightarrow>
   js_length data = Some (length (data_bytes data))"
  by (induction data rule: data_bytes.induct) auto

lemma write_data_fits:
  assumes "isBuffer_val data \<or> isArray data"
    and "offset + length (data_bytes data) \<le> length t"
  shows "write_data data (Some (Buffer t)) offset pos
           = Inr (Some (Buffer (take offset t @ data_bytes data
                                  @ drop (offset + length (data_bytes data)) t)),
                  max pos (offset + length (data_bytes data)))"
  using assms
  by (induction data rule: data_bytes.induct)
     (auto simp: Buffer_copy_fits store_elems_Buffer new_position_def max_def)

lemma write_into_Buffer_store:
  assumes "buffer this = Some (Buffer bs)" and "offset \<le> length bs"
    and "isBuffer_val data \<or> isArray data"
  shows "Binary_write data (Some offset) this =
           (None, this\<lparr>buffer := Some (Buffer
                     (take offset bs @ data_bytes data
                        @ drop (offset + length (data_bytes data))
                            (if length bs < offset + length (data_bytes data)
                             then bs @ replicate (length (data_bytes data)) 0 else bs))),
                   position := max (position this) (offset + length (data_bytes data))\<rparr>)"
proof (cases "length bs < offset + length (data_bytes data)")
  case True
  let ?t = "bs @ replicate (length (data_bytes data)) 0"
  have "offset + length (data_bytes data) \<le> length ?t" using assms(2) by simp
  from write_data_fits [OF assms(3) this] True assms(1,2) show ?thesis
    by (simp add: Binary_write_def too_small_def length_data_bytes [OF assms(3)]
        Buffer_copy_whole)
next
  case False
  then have "offset + length (data_bytes data) \<le> length bs" by simp
  from write_data_fits [OF assms(3) this] False assms(1) show ?thesis
    by (simp add: Binary_write_def too_small_def length_data_bytes [OF assms(3)])
qed

lemma write_cursor_within_store:
  assumes "buffer this = Some (Buffer bs)" and "offset \<le> length bs"
    and "isBuffer_val data \<or> isArray data"
    and "cursor_within_store this"
  shows "cursor_within_store (snd (Binary_write data (Some offset) this))"
  using assms(1,2,4) unfolding write_into_Buffer_store [OF assms(1,2,3)]
  by (auto simp: cursor_within_store_def)

text \<open>
  A write of a string into a Buffer store raises the \<open>TypeError\<close> of the
  \<open>buf.write\<close> call and leaves the cursor where it was.
\<close>

lemma write_string_into_Buffer_store:
  assumes "buffer this = Some (Buffer bs)"
  shows "fst (Binary_write (Str s) offset' this) = Some TypeError
       \<and> position (snd (Binary_write (Str s) offset' this)) = position this"
  using assms
  by (simp add: Binary_write_def Buffer_write_binary_def Let_def)

text \<open>The scenario of the specification, on an \<open>Array\<close> store and on a Buffer store.\<close>

lemma write_scenario:
  "Binary_write (Seq (Array [Some 9, Some 9])) (Some 1)
       (new_Binary (Some (Seq (Array [Some 1, Some 2, Some 3]))) None)
     = (None, \<lparr>sub_type = 0, position = 3, buffer = Some (Array [Some 1, Some 9, Some 9])\<rparr>)
   \<and> Binary_write (Seq (Buffer [9, 9])) (Some 1)
       (new_Binary (Some (Seq (Buffer [1, 2, 3]))) None)
     = (None, \<lparr>sub_type = 0, position = 3, buffer = Some (Buffer [1, 9, 9])\<rparr>)"
  by code_simp

text \<open>
  Claim C6: a write whose end lies beyond the capacity extends the store to the
  old capacity plus the length of the data, keeps the content, copies the data at
  the offset and sets the cursor to the larger of its old value and the end of
  the data. The extension of the code handles a Buffer only: on the Array store
  [1, 2, 3], write([9], 3) replaces the store by null and raises a TypeError. On
  a Buffer store the extension is too short for an offset beyond the old
  capacity: on a fresh instance, write of the Buffer [1, 2, 3] at offset 257
  stores 1 and 2 and drops the 3.
\<close>

theorem write_extending_Array_store_fails:
  "Binary_write (Seq (Array [Some 9])) (Some 3)
       (new_Binary (Some (Seq (Array [Some 1, Some 2, Some 3]))) None)
     = (Some TypeError, \<lparr>sub_type = 0, position = 3, buffer = None\<rparr>)
   \<and> map (store_get (snd (Binary_write (Seq (Buffer [1, 2, 3])) (Some 257) (new_Binary None None))))
         [257, 258, 259]
     = [Some 1, Some 2, None]"
  by code_simp

text \<open>
  Claim C1: after every operation (construction, put, write) the cursor is at most
  the capacity of the store; in particular write extends the store far enough for
  the new cursor. The code extends the store by the length of the data only, which
  is too little when the offset lies beyond the old capacity: on a fresh instance
  (capacity 256), writing the three-byte Buffer [1, 2, 3] at offset 257 raises
  nothing, leaves a store of 259 bytes and sets the cursor to 260.
\<close>

theorem write_beyond_capacity_breaks_invariant:
  "(let r = Binary_write (Seq (Buffer [1, 2, 3])) (Some 257) (new_Binary None None)
    in fst r = None \<and> position (snd r) = 260 \<and> capacity (snd r) = Some 259
       \<and> \<not> cursor_within_store (snd r))"
  by code_simp

subsection \<open>read\<close>

lemma adjustOffset_nonneg: "0 \<le> p \<Longrightarrow> adjustOffset p n = min (nat p) n"
  by (auto simp: adjustOffset_def)

lemma list_slice_window:
  assumes "0 \<le> p" and "0 \<le> L"
  shows "list_slice xs p (p + L) = take (nat L) (drop (nat p) xs)"
proof -
  have e: "nat (p + L) = nat p + nat L" using assms by (simp add: nat_add_distrib)
  show ?thesis
  proof (cases "nat p + nat L \<le> length xs")
    case True
    then show ?thesis
      using assms by (auto simp: list_slice_def adjustOffset_nonneg Let_def e min_def)
  next
    case False
    then have "take (nat L) (drop (nat p) xs) = drop (nat p) xs" by simp
    with False show ?thesis
      using assms by (auto simp: list_slice_def adjustOffset_nonneg Let_def e min_def)
  qed
qed

lemma length_list_slice_window:
  assumes "0 \<le> p" and "0 \<le> L"
  shows "int (length (list_slice xs p (p + L))) = max 0 (min L (int (length xs) - p))"
  using assms by (auto simp: list_slice_window)

lemma effective_length_nonneg: "0 \<le> effective_length len this"
  by (auto simp: effective_length_def split: option.splits)

lemma Binary_read_eq:
  "Binary_read p len this =
     (case buffer this of None \<Rightarrow> Inl TypeError
      | Some q \<Rightarrow> Inr (seq_slice q p (p + effective_length len this)))"
  by (auto simp: Binary_read_def effective_length_def Let_def split: option.splits)

text \<open>
  Claim C7: when the length argument of read is omitted or not positive, the
  length is the cursor \<open>this.position\<close>, whatever the start offset: the call
  returns the slice from the start offset to the start offset plus the cursor. On
  a value holding [10, 20, 30], read(0) returns the three bytes and read(1, 1)
  returns [20]; on a fresh instance after put(10), put(20), put(30) (capacity
  256), read(1) returns three bytes, one more than remain after offset 1.
\<close>

theorem read_default_length_is_cursor:
  "(\<forall>l. l \<le> 0 \<longrightarrow> Binary_read p (Some l) this = Binary_read p None this)
   \<and> Binary_read p None this = Binary_read p (Some (int (position this))) this
   \<and> (\<forall>q. buffer this = Some q \<longrightarrow>
         Binary_read p None this = Inr (seq_slice q p (p + int (position this))))
   \<and> Binary_read 0 None (new_Binary (Some (Seq (Buffer [10, 20, 30]))) None)
        = Inr (Buffer [10, 20, 30])
   \<and> Binary_read 1 (Some 1) (new_Binary (Some (Seq (Buffer [10, 20, 30]))) None)
        = Inr (Buffer [20])
   \<and> Binary_read 0 None (new_Binary (Some (Seq (Array [Some 10, Some 20, Some 30]))) None)
        = Inr (Array [Some 10, Some 20, Some 30])
   \<and> Binary_read 1 (Some 1) (new_Binary (Some (Seq (Array [Some 10, Some 20, Some 30]))) None)
        = Inr (Array [Some 20])
   \<and> Binary_read 1 None
        (snd (Binary_put (Num 30) (snd (Binary_put (Num 20)
          (snd (Binary_put (Num 10) (new_Binary None None)))))))
        = Inr (Buffer [20, 30, 0])"
proof -
  have a: "\<forall>l. l \<le> 0 \<longrightarrow> Binary_read p (Some l) this = Binary_read p None this"
    by (simp add: Binary_read_def)
  have b: "Binary_read p None this = Binary_read p (Some (int (position this))) this"
    by (simp add: Binary_read_def)
  have c: "\<forall>q. buffer this = Some q \<longrightarrow>
         Binary_read p None this = Inr (seq_slice q p (p + int (position this)))"
    by (simp add: Binary_read_def)
  have d: "Binary_read 0 None (new_Binary (Some (Seq (Buffer [10, 20, 30]))) None)
        = Inr (Buffer [10, 20, 30])" by code_simp
  have e: "Binary_read 1 (Some 1) (new_Binary (Some (Seq (Buffer [10, 20, 30]))) None)
        = Inr (Buffer [20])" by code_simp
  have f: "Binary_read 0 None (new_Binary (Some (Seq (Array [Some 10, Some 20, Some 30]))) None)
        = Inr (Array [Some 10, Some 20, Some 30])" by code_simp
  have g: "Binary_read 1 (Some 1) (new_Binary (Some (Seq (Array [Some 10, Some 20, Some 30]))) None)
        = Inr (Array [Some 20])" by code_simp
  have h: "Binary_read 1 None
        (snd (Binary_put (Num 30) (snd (Binary_put (Num 20)
          (snd (Binary_put (Num 10) (new_Binary None None)))))))
        = Inr (Buffer [20, 30, 0])" by code_simp
  from a b c d e f g h show ?thesis by blast
qed

text \<open>An instance of C7: read(0, -2) on a value holding [10, 20, 30].\<close>

theorem read_default_length_is_cursor_witness:
  "Binary_read 0 (Some (- 2)) (new_Binary (Some (Seq (Buffer [10, 20, 30]))) None)
     = Inr (Buffer [10, 20, 30])"
proof -
  let ?b = "new_Binary (Some (Seq (Buffer [10, 20, 30]))) None"
  have h: "buffer ?b = Some (Buffer [10, 20, 30])" by code_simp
  have n: "(- 2 :: int) \<le> 0" by simp
  from read_default_length_is_cursor [of 0 ?b]
  have "Binary_read 0 (Some (- 2)) ?b = Binary_read 0 None ?b"
    and "Binary_read 0 None ?b = Inr (Buffer [10, 20, 30])"
    using n by blast+
  then show ?thesis by simp
qed

text \<open>
  Claim C10: on a Buffer store, read(p, len) with p at least 0 never raises and
  returns the slice from p to p + L, where L is len when it is positive and the
  cursor otherwise: the bytes from p on, at most L of them. Its length is the
  smaller of L and capacity - p, and 0 when that is negative; a window that ends
  beyond the capacity gives the bytes from p to the end of the store, and a start
  at or beyond the capacity gives the empty Buffer.
\<close>

theorem read_Buffer_never_raises:
  assumes "buffer this = Some (Buffer bs)" and "0 \<le> p"
  shows "Binary_read p len this = Inr (seq_slice (Buffer bs) p (p + effective_length len this))
       \<and> seq_slice (Buffer bs) p (p + effective_length len this)
           = Buffer (take (nat (effective_length len this)) (drop (nat p) bs))
       \<and> int (seq_length (seq_slice (Buffer bs) p (p + effective_length len this)))
           = max 0 (min (effective_length len this) (int (length bs) - p))
       \<and> (int (length bs) < p + effective_length len this \<longrightarrow>
            seq_slice (Buffer bs) p (p + effective_length len this) = Buffer (drop (nat p) bs))
       \<and> (int (length bs) \<le> p \<longrightarrow>
            Binary_read p len this = Inr (Buffer []))"
  using assms effective_length_nonneg [of len this]
  by (auto simp: Binary_read_eq list_slice_window)

text \<open>An instance of C10: read(1) on the Buffer [10, 20, 30].\<close>

theorem read_Buffer_never_raises_witness:
  "buffer (new_Binary (Some (Seq (Buffer [10, 20, 30]))) None) = Some (Buffer [10, 20, 30])
   \<and> (0 :: int) \<le> 1
   \<and> Binary_read 1 None (new_Binary (Some (Seq (Buffer [10, 20, 30]))) None)
        = Inr (Buffer [20, 30])"
proof -
  let ?b = "new_Binary (Some (Seq (Buffer [10, 20, 30]))) None"
  have h: "buffer ?b = Some (Buffer [10, 20, 30])" by code_simp
  have l: "effective_length None ?b = 3" by code_simp
  have p: "(0 :: int) \<le> 1" by simp
  from read_Buffer_never_raises [OF h p, of None]
  have "Binary_read 1 None ?b = Inr (Buffer (take (nat 3) (drop (nat 1) [10, 20, 30])))"
    unfolding l by simp
  then show ?thesis using h by simp
qed

lemma seq_elems_slice: "seq_elems (seq_slice q s e) = list_slice (seq_elems q) s e"
  by (cases q) (auto simp: list_slice_def Let_def take_map drop_map)

text \<open>
  Claim C3 says that a read whose window extends beyond the capacity raises an
  OutOfRange error. It does not: read(2, 5) on the three-byte Buffer [10, 20, 30]
  returns the one-byte Buffer [30].
\<close>

theorem read_past_capacity_returns_normally:
  "capacity (new_Binary (Some (Seq (Buffer [10, 20, 30]))) None) = Some 3
   \<and> Binary_read 2 (Some 5) (new_Binary (Some (Seq (Buffer [10, 20, 30]))) None) = Inr (Buffer [30])"
  by code_simp

text \<open>
  Claim C3, as the code has it: for every store (Buffer, Uint8Array or Array), a
  read from an offset p at least 0 whose window extends beyond the capacity
  raises nothing and returns the truncated window, that is exactly the elements
  of the store from p to its end.
\<close>

theorem read_past_capacity_is_truncated:
  assumes "buffer this = Some q" and "0 \<le> p"
    and "int (seq_length q) < p + effective_length len this"
  shows "\<exists>r. Binary_read p len this = Inr r
            \<and> seq_elems r = drop (nat p) (seq_elems q)
            \<and> seq_length r = seq_length q - nat p"
proof -
  have "list_slice (seq_elems q) p (p + effective_length len this) = drop (nat p) (seq_elems q)"
    using assms effective_length_nonneg [of len this]
    by (simp add: list_slice_window)
  then show ?thesis
    using assms(1) by (simp add: Binary_read_eq seq_elems_slice flip: length_seq_elems)
qed

text \<open>An instance of C3: read(2, 10) on the Array store [1, 2, 3, 4].\<close>

theorem read_past_capacity_is_truncated_witness:
  "buffer (new_Binary (Some (Seq (Array [Some 1, Some 2, Some 3, Some 4]))) None)
     = Some (Array [Some 1, Some 2, Some 3, Some 4])
   \<and> (\<exists>r. Binary_read 2 (Some 10) (new_Binary (Some (Seq (Array [Some 1, Some 2, Some 3, Some 4]))) None)
           = Inr r \<and> seq_elems r = [Some 3, Some 4] \<and> seq_length r = 2)"
proof -
  let ?b = "new_Binary (Some (Seq (Array [Some 1, Some 2, Some 3, Some 4]))) None"
  have h: "buffer ?b = Some (Array [Some 1, Some 2, Some 3, Some 4])" by code_simp
  have p: "(0 :: int) \<le> 2" by simp
  have w: "int (seq_length (Array [Some 1, Some 2, Some 3, Some 4])) < 2 + effective_length (Some 10) ?b"
    by code_simp
  from read_past_capacity_is_truncated [OF h p w] show ?thesis using h by (auto simp: numeral_2_eq_2)
qed

subsection \<open>toJSON\<close>

lemma length_base64_encode: "length (base64_encode bs) = 4 * ((length bs + 2) div 3)"
proof (induction bs rule: base64_encode.induct)
  case (4 a b c bs)
  have "(length (a # b # c # bs) + 2) div 3 = Suc ((length bs + 2) div 3)" by simp
  with 4 show ?case by simp
qed simp_all

lemma length_js_string [simp]: "length (js_string cs) = length cs"
  by (simp add: js_string_def)

text \<open>
  Claim C9: for every instance whose store is not null, toJSON returns the base64
  encoding of the whole store, unused capacity included. The code asks for it
  with \<open>toString('base64')\<close>, but on an Array or Uint8Array store the
  \<open>toString\<close> called is that of arrays, which takes no encoding: on the store
  [1, 2, 3] of either kind the result is "1,2,3", while the base64 encoding of
  these bytes is "AQID".
\<close>

theorem toJSON_Array_store_is_not_base64:
  "Binary_toJSON (new_Binary (Some (Seq (Array [Some 1, Some 2, Some 3]))) None) = js_string ''1,2,3''
   \<and> Binary_toJSON (new_Binary (Some (Seq (Uint8Array [1, 2, 3]))) None) = js_string ''1,2,3''
   \<and> js_string (base64_encode [1, 2, 3]) = js_string ''AQID''"
  by code_simp

text \<open>
  On a Buffer store toJSON returns the base64 encoding of all the bytes of the
  store, four characters for every three bytes of capacity, and the result does
  not depend on the cursor.
\<close>

lemma toJSON_Buffer_encodes_whole_store:
  assumes "buffer this = Some (Buffer bs)"
  shows "Binary_toJSON this = js_string (base64_encode bs)
       \<and> length (Binary_toJSON this) = 4 * ((length bs + 2) div 3)
       \<and> Binary_toJSON (this\<lparr>position := k\<rparr>) = Binary_toJSON this"
  using assms by (simp add: Binary_toJSON_def length_base64_encode)

text \<open>
  A fresh instance after put(65) has one byte of content and a store of 256
  bytes; toJSON returns 344 characters.
\<close>

lemma toJSON_Buffer_store_example:
  "buffer (snd (Binary_put (Num 65) (new_Binary None None))) = Some (Buffer (65 # replicate 255 0))
   \<and> position (snd (Binary_put (Num 65) (new_Binary None None))) = 1
   \<and> length (Binary_toJSON (snd (Binary_put (Num 65) (new_Binary None None)))) = 344"
proof -
  have h: "buffer (snd (Binary_put (Num 65) (new_Binary None None)))
             = Some (Buffer (65 # replicate 255 0))"
    by code_simp
  have p: "position (snd (Binary_put (Num 65) (new_Binary None None))) = 1"
    by code_simp
  have "length (Binary_toJSON (snd (Binary_put (Num 65) (new_Binary None None))))
          = 4 * ((length (65 # replicate 255 (0 :: byte)) + 2) div 3)"
    using toJSON_Buffer_encodes_whole_store [OF h] by (rule conjunct1 [OF conjunct2])
  also have "\<dots> = 344" by simp
  finally show ?thesis using h p by blast
qed

end
